theory Spec2Isabelle
  imports Main "HOL-Library.Word"
begin

section \<open>The oxide\_instance resource: data model\<close>

text \<open>
  The embedding follows \<^verbatim>\<open>oxide/resource_instance.go\<close>. The Terraform plugin framework,
  the Go standard library and the oxide.go SDK are not part of the repository: the values
  they hand to the resource are inputs of the model, and the functions they provide
  (\<^verbatim>\<open>strconv.Unquote\<close>, the SDK client, the helpers \<^verbatim>\<open>is404\<close> and
  \<^verbatim>\<open>defaultTimeout\<close> declared elsewhere in the package) are parameters.
  Logging (\<^verbatim>\<open>tflog.Trace\<close>) has no effect on the result and is left out.
\<close>

subsection \<open>Framework values\<close>

text \<open>\<^verbatim>\<open>types.String\<close>, \<^verbatim>\<open>types.Int64\<close>, \<^verbatim>\<open>types.Bool\<close>: null, unknown or a known value.
  The accessors return the zero value for null and unknown.\<close>

datatype tfString = StringNull | StringUnknown | StringValue string

fun ValueString :: "tfString \<Rightarrow> string" where
  "ValueString (StringValue s) = s"
| "ValueString _ = []"

datatype tfInt64 = Int64Null | Int64Unknown | Int64Value "64 word"

fun ValueInt64 :: "tfInt64 \<Rightarrow> 64 word" where
  "ValueInt64 (Int64Value n) = n"
| "ValueInt64 _ = 0"

datatype tfBool = BoolNull | BoolUnknown | BoolValue bool

fun ValueBool :: "tfBool \<Rightarrow> bool" where
  "ValueBool (BoolValue b) = b"
| "ValueBool _ = False"

text \<open>\<^verbatim>\<open>types.List\<close> of strings. Each element is represented by the text its
  \<^verbatim>\<open>String()\<close> method renders, which is what the resource passes to
  \<^verbatim>\<open>strconv.Unquote\<close>. \<^verbatim>\<open>Elements()\<close> of a null or unknown list is empty.\<close>

datatype tfList = ListNull | ListUnknown | ListValue "string list"

fun Elements :: "tfList \<Rightarrow> string list" where
  "Elements (ListValue xs) = xs"
| "Elements _ = []"

text \<open>Diagnostics: a list of errors and warnings, each with a summary and a detail.\<close>

datatype diagnostic = ErrorDiag string string | WarningDiag string string

fun isError :: "diagnostic \<Rightarrow> bool" where
  "isError (ErrorDiag _ _) = True"
| "isError (WarningDiag _ _) = False"

definition HasError :: "diagnostic list \<Rightarrow> bool" where
  "HasError ds = list_ex isError ds"

definition AddError :: "string \<Rightarrow> string \<Rightarrow> diagnostic list \<Rightarrow> diagnostic list" where
  "AddError summary detail ds = ds @ [ErrorDiag summary detail]"

text \<open>The \<^verbatim>\<open>timeouts\<close> block. The timeout of an operation is unset, a duration (in
  nanoseconds, as \<^verbatim>\<open>time.Duration\<close>) or a text that does not parse as a duration,
  kept here as the detail of the error the framework reports for it; the update timeout is
  not part of the schema. \<^verbatim>\<open>Timeouts.Create\<close>, \<^verbatim>\<open>Read\<close> and \<^verbatim>\<open>Delete\<close> take
  the default and return a duration together with diagnostics.\<close>

datatype timeoutAttr = TimeoutUnset | TimeoutDuration nat | TimeoutInvalid string

record timeoutsValue =
  createAttr :: timeoutAttr
  readAttr :: timeoutAttr
  deleteAttr :: timeoutAttr

fun getTimeout :: "timeoutAttr \<Rightarrow> nat \<Rightarrow> nat \<times> diagnostic list" where
  "getTimeout TimeoutUnset dflt = (dflt, [])"
| "getTimeout (TimeoutDuration d) dflt = (d, [])"
| "getTimeout (TimeoutInvalid detail) dflt = (dflt, [ErrorDiag ''Timeout Cannot Be Parsed'' detail])"

definition Timeouts_Create :: "timeoutsValue \<Rightarrow> nat \<Rightarrow> nat \<times> diagnostic list" where
  "Timeouts_Create t dflt = getTimeout (createAttr t) dflt"

definition Timeouts_Read :: "timeoutsValue \<Rightarrow> nat \<Rightarrow> nat \<times> diagnostic list" where
  "Timeouts_Read t dflt = getTimeout (readAttr t) dflt"

definition Timeouts_Delete :: "timeoutsValue \<Rightarrow> nat \<Rightarrow> nat \<times> diagnostic list" where
  "Timeouts_Delete t dflt = getTimeout (deleteAttr t) dflt"

definition Second :: nat where
  "Second = 1000000000"

subsection \<open>The resource model\<close>

record instanceResourceModel =
  AttachToDisks :: tfList
  Description :: tfString
  ExternalIPs :: tfList
  HostName :: tfString
  ID :: tfString
  Memory :: tfInt64
  Name :: tfString
  NCPUs :: tfInt64
  ProjectID :: tfString
  StartOnCreate :: tfBool
  TimeCreated :: tfString
  TimeModified :: tfString
  Timeouts :: timeoutsValue
  UserData :: tfString

text \<open>\<^verbatim>\<open>req.Plan.Get\<close> and \<^verbatim>\<open>req.State.Get\<close> decode the framework's value into the model
  and return diagnostics: a request carries both results.\<close>

record request =
  GetDiags :: "diagnostic list"
  GetModel :: instanceResourceModel

subsection \<open>SDK values\<close>

text \<open>The run state of an instance, as the remote API enumerates it; the resource only
  compares with \<^verbatim>\<open>InstanceStateStopped\<close>.\<close>

datatype InstanceState =
  InstanceStateCreating | InstanceStateStarting | InstanceStateRunning
  | InstanceStateStopping | InstanceStateStopped | InstanceStateRebooting
  | InstanceStateMigrating | InstanceStateRepairing | InstanceStateFailed
  | InstanceStateDestroyed

text \<open>The view of an instance. \<^verbatim>\<open>ByteCount\<close> is an unsigned 64-bit and
  \<^verbatim>\<open>InstanceCpuCount\<close> an unsigned 16-bit integer; a timestamp is represented by the
  text \<^verbatim>\<open>Time.String()\<close> renders.\<close>

record Instance =
  iDescription :: string
  iHostname :: string
  iId :: string
  iMemory :: "64 word"
  iName :: string
  iNcpus :: "16 word"
  iProjectId :: string
  iRunState :: InstanceState
  iTimeCreated :: string
  iTimeModified :: string

datatype InstanceDiskAttachmentType = InstanceDiskAttachmentTypeAttach | InstanceDiskAttachmentTypeCreate

record InstanceDiskAttachment =
  daName :: string
  daType :: InstanceDiskAttachmentType

datatype ExternalIpCreateType = ExternalIpCreateTypeEphemeral

record ExternalIpCreate =
  ipPoolName :: string
  ipType :: ExternalIpCreateType

datatype InstanceNetworkInterfaceAttachmentType =
  InstanceNetworkInterfaceAttachmentTypeCreate
  | InstanceNetworkInterfaceAttachmentTypeDefault
  | InstanceNetworkInterfaceAttachmentTypeNone

record InstanceCreate =
  bDescription :: string
  bName :: string
  bHostname :: string
  bMemory :: "64 word"
  bNcpus :: "16 word"
  bStart :: bool
  bNetworkInterfaces :: InstanceNetworkInterfaceAttachmentType
  bUserData :: string
  bDisks :: "InstanceDiskAttachment list"
  bExternalIps :: "ExternalIpCreate list"

record InstanceCreateParams =
  pProject :: string
  pBody :: InstanceCreate

record Disk =
  dId :: string

record DiskResultsPage =
  Items :: "Disk list"

subsection \<open>The remote client and the trace of a run\<close>

text \<open>
  A client method takes its parameters and the state of the remote system \<open>'w\<close>, and
  returns Go's result pair together with the new remote state. The first component of the
  pair is a pointer in Go: \<open>None\<close> is \<^verbatim>\<open>nil\<close>, and reading a field through it panics.
  The second is the \<^verbatim>\<open>error\<close>: \<open>None\<close> is \<^verbatim>\<open>nil\<close>. Errors are of an arbitrary type
  \<open>'e\<close>; the resource only reads their text (\<^verbatim>\<open>Error()\<close>) and classifies them with
  \<^verbatim>\<open>is404\<close>.
\<close>

record ('w, 'e) Client =
  InstanceCreate :: "InstanceCreateParams \<Rightarrow> 'w \<Rightarrow> (Instance option \<times> 'e option) \<times> 'w"
  InstanceView :: "string \<Rightarrow> 'w \<Rightarrow> (Instance option \<times> 'e option) \<times> 'w"
  InstanceDiskList :: "string \<Rightarrow> nat \<Rightarrow> 'w \<Rightarrow> (DiskResultsPage option \<times> 'e option) \<times> 'w"
  InstanceDiskDetach :: "string \<Rightarrow> string \<Rightarrow> 'w \<Rightarrow> (Disk option \<times> 'e option) \<times> 'w"
  InstanceStop :: "string \<Rightarrow> 'w \<Rightarrow> (Instance option \<times> 'e option) \<times> 'w"
  InstanceDelete :: "string \<Rightarrow> 'w \<Rightarrow> 'e option \<times> 'w"

text \<open>What a run does that can be observed from outside, in order: the remote calls it
  issues, the time it sleeps, and the values the poller sends on its channel.\<close>

datatype call =
  CallInstanceCreate InstanceCreateParams
  | CallInstanceView string
  | CallInstanceDiskList string nat
  | CallInstanceDiskDetach string string
  | CallInstanceStop string
  | CallInstanceDelete string

datatype 'e event = Call call | Sleep nat | ChanSend "'e option"

text \<open>A callback returns or panics (a nil dereference).\<close>

datatype ending = Returned | Panicked

text \<open>The state of a run: the remote system, the trace so far, the diagnostics of the
  response, and the state the callback has saved with \<^verbatim>\<open>resp.State.Set\<close> (if any).\<close>

record ('w, 'e) exec =
  World :: 'w
  Trace :: "'e event list"
  Diagnostics :: "diagnostic list"
  State :: "instanceResourceModel option"

definition start :: "'w \<Rightarrow> ('w, 'e) exec" where
  "start w = \<lparr>World = w, Trace = [], Diagnostics = [], State = None\<rparr>"

section \<open>Update\<close>

text \<open>\<^verbatim>\<open>Update\<close> only adds an error to the response.\<close>

definition Update :: "('w, 'e) Client \<Rightarrow> request \<Rightarrow> 'w \<Rightarrow> ending \<times> ('w, 'e) exec" where
  "Update client req w =
     (let x = start w in
      (Returned, x\<lparr>Diagnostics := AddError ''Error updating instance''
         ''the oxide API currently does not support updating instances'' (Diagnostics x)\<rparr>))"

section \<open>Create\<close>

text \<open>\<^verbatim>\<open>strconv.ErrSyntax\<close>, the only error \<^verbatim>\<open>strconv.Unquote\<close> returns.\<close>

definition ErrSyntax :: string where
  "ErrSyntax = ''invalid syntax''"

text \<open>The two loops of \<^verbatim>\<open>Create\<close> over the disk and the IP pool tokens: the first token
  that does not unquote ends the loop with the error, and nothing of the list built so far
  is kept.\<close>

fun diskAttachmentsLoop ::
  "(string \<Rightarrow> string option) \<Rightarrow> string list \<Rightarrow> InstanceDiskAttachment list
     \<Rightarrow> InstanceDiskAttachment list option" where
  "diskAttachmentsLoop unquote [] acc = Some acc"
| "diskAttachmentsLoop unquote (disk # rest) acc =
     (case unquote disk of
        None \<Rightarrow> None
      | Some diskName \<Rightarrow>
          diskAttachmentsLoop unquote rest
            (acc @ [\<lparr>daName = diskName, daType = InstanceDiskAttachmentTypeAttach\<rparr>]))"

fun externalIPsLoop ::
  "(string \<Rightarrow> string option) \<Rightarrow> string list \<Rightarrow> ExternalIpCreate list
     \<Rightarrow> ExternalIpCreate list option" where
  "externalIPsLoop unquote [] acc = Some acc"
| "externalIPsLoop unquote (ip # rest) acc =
     (case unquote ip of
        None \<Rightarrow> None
      | Some poolName \<Rightarrow>
          externalIPsLoop unquote rest
            (acc @ [\<lparr>ipPoolName = poolName, ipType = ExternalIpCreateTypeEphemeral\<rparr>]))"

definition createBody :: "instanceResourceModel \<Rightarrow> InstanceCreate" where
  "createBody plan =
     \<lparr>bDescription = ValueString (Description plan),
      bName = ValueString (Name plan),
      bHostname = ValueString (HostName plan),
      bMemory = ValueInt64 (Memory plan),
      bNcpus = ucast (ValueInt64 (NCPUs plan)),
      bStart = ValueBool (StartOnCreate plan),
      bNetworkInterfaces = InstanceNetworkInterfaceAttachmentTypeNone,
      bUserData = ValueString (UserData plan),
      bDisks = [],
      bExternalIps = []\<rparr>"

text \<open>The callback (lines 149 to 253). It returns early after each step that left an
  error in the diagnostics. \<^verbatim>\<open>resp.State.Set\<close> stores the model it is given; it is
  the last statement, so the diagnostics it may add change nothing of what is saved, and
  they are taken to be empty.\<close>

definition Create ::
  "(string \<Rightarrow> string option) \<Rightarrow> ('e \<Rightarrow> string) \<Rightarrow> nat \<Rightarrow> ('w, 'e) Client \<Rightarrow> request \<Rightarrow> 'w
     \<Rightarrow> ending \<times> ('w, 'e) exec" where
  "Create unquote Error defaultTimeout client req w =
     (let x0 = start w;
          plan = GetModel req;
          x1 = x0\<lparr>Diagnostics := Diagnostics x0 @ GetDiags req\<rparr>
      in if HasError (Diagnostics x1) then (Returned, x1) else
      let (createTimeout, diags) = Timeouts_Create (Timeouts plan) defaultTimeout;
          x2 = x1\<lparr>Diagnostics := Diagnostics x1 @ diags\<rparr>
      in if HasError (Diagnostics x2) then (Returned, x2) else
      let body = createBody plan in
      (case diskAttachmentsLoop unquote (Elements (AttachToDisks plan)) [] of
        None \<Rightarrow>
          (Returned, x2\<lparr>Diagnostics := AddError ''Error attaching instance to disk''
             (''IP pool name parse error: '' @ ErrSyntax) (Diagnostics x2)\<rparr>)
      | Some diskAttachements \<Rightarrow>
      (case externalIPsLoop unquote (Elements (ExternalIPs plan)) [] of
        None \<Rightarrow>
          (Returned, x2\<lparr>Diagnostics := AddError ''Error creating external IP addresses''
             (''IP pool name parse error: '' @ ErrSyntax) (Diagnostics x2)\<rparr>)
      | Some externalIPs \<Rightarrow>
      let params = \<lparr>pProject = ValueString (ProjectID plan),
                    pBody = body\<lparr>bDisks := diskAttachements, bExternalIps := externalIPs\<rparr>\<rparr>;
          ((instance, err), w') = InstanceCreate client params (World x2);
          x3 = x2\<lparr>World := w', Trace := Trace x2 @ [Call (CallInstanceCreate params)]\<rparr>
      in (case err of
        Some e \<Rightarrow>
          (Returned, x3\<lparr>Diagnostics := AddError ''Error creating instance''
             (''API error: '' @ Error e) (Diagnostics x3)\<rparr>)
      | None \<Rightarrow>
      (case instance of
        None \<Rightarrow> (Panicked, x3)
      | Some inst \<Rightarrow>
          (Returned, x3\<lparr>State := Some (plan\<lparr>ID := StringValue (iId inst),
             TimeCreated := StringValue (iTimeCreated inst),
             TimeModified := StringValue (iTimeCreated inst)\<rparr>)\<rparr>))))))"

section \<open>Read\<close>

text \<open>The callback (lines 256 to 304). Any error of the fetch, not-found included, is
  reported; the two list attributes are not assigned (lines 296 and 297 are comments).\<close>

definition Read ::
  "('e \<Rightarrow> string) \<Rightarrow> nat \<Rightarrow> ('w, 'e) Client \<Rightarrow> request \<Rightarrow> 'w \<Rightarrow> ending \<times> ('w, 'e) exec" where
  "Read Error defaultTimeout client req w =
     (let x0 = start w;
          state = GetModel req;
          x1 = x0\<lparr>Diagnostics := Diagnostics x0 @ GetDiags req\<rparr>
      in if HasError (Diagnostics x1) then (Returned, x1) else
      let (readTimeout, diags) = Timeouts_Read (Timeouts state) defaultTimeout;
          x2 = x1\<lparr>Diagnostics := Diagnostics x1 @ diags\<rparr>
      in if HasError (Diagnostics x2) then (Returned, x2) else
      let ((instance, err), w') = InstanceView client (ValueString (ID state)) (World x2);
          x3 = x2\<lparr>World := w',
                  Trace := Trace x2 @ [Call (CallInstanceView (ValueString (ID state)))]\<rparr>
      in (case err of
        Some e \<Rightarrow>
          (Returned, x3\<lparr>Diagnostics := AddError ''Unable to read instance:''
             (''API error: '' @ Error e) (Diagnostics x3)\<rparr>)
      | None \<Rightarrow>
      (case instance of
        None \<Rightarrow> (Panicked, x3)
      | Some inst \<Rightarrow>
          (Returned, x3\<lparr>State := Some (state\<lparr>
             Description := StringValue (iDescription inst),
             HostName := StringValue (iHostname inst),
             ID := StringValue (iId inst),
             Memory := Int64Value (iMemory inst),
             Name := StringValue (iName inst),
             NCPUs := Int64Value (ucast (iNcpus inst)),
             ProjectID := StringValue (iProjectId inst),
             TimeCreated := StringValue (iTimeCreated inst),
             TimeModified := StringValue (iTimeCreated inst)\<rparr>)\<rparr>))))"

section \<open>The stop-wait poll\<close>

text \<open>
  One pass through the body of the loop of \<^verbatim>\<open>waitForStoppedInstance\<close>, up to the
  sleep: the fetch with the error it returned, and what the test of
  \<^verbatim>\<open>resp.RunState\<close> decides. The test is reached whether or not the fetch failed.
\<close>

datatype loopExit = Break | SleepAndRepeat | NilDereference

definition pollOnce ::
  "('w, 'e) Client \<Rightarrow> string \<Rightarrow> 'w \<Rightarrow> ('e option \<times> loopExit) \<times> 'w" where
  "pollOnce client instanceID w =
     (let ((resp, err), w') = InstanceView client instanceID w
      in ((err,
           (case resp of
              None \<Rightarrow> NilDereference
            | Some inst \<Rightarrow>
                if iRunState inst = InstanceStateStopped then Break else SleepAndRepeat)),
          w'))"

text \<open>
  The function as a process of its own, every send on the channel being taken by a
  receiver: it returns after the final \<^verbatim>\<open>ch <- nil\<close>, panics on a nil response, or
  runs forever (\<open>None\<close>).
\<close>

partial_function (option) waitForStoppedInstance ::
  "('w, 'e) Client \<Rightarrow> string \<Rightarrow> 'w \<Rightarrow> 'e event list \<Rightarrow> (ending \<times> 'w \<times> 'e event list) option"
where
  "waitForStoppedInstance client instanceID w tr =
     (let ((err, nxt), w') = pollOnce client instanceID w;
          tr1 = tr @ [Call (CallInstanceView instanceID)];
          tr2 = (case err of Some e \<Rightarrow> tr1 @ [ChanSend (Some e)] | None \<Rightarrow> tr1)
      in (case nxt of
            NilDereference \<Rightarrow> Some (Panicked, w', tr2)
          | Break \<Rightarrow> Some (Returned, w', tr2 @ [ChanSend None])
          | SleepAndRepeat \<Rightarrow> waitForStoppedInstance client instanceID w' (tr2 @ [Sleep Second])))"

text \<open>
  \<^verbatim>\<open>go waitForStoppedInstance(...); e := <-ch\<close> in \<^verbatim>\<open>Delete\<close>: the goroutine runs
  until its first send, and \<^verbatim>\<open>Delete\<close> receives the value sent. A panic of the
  goroutine is not recovered and ends the process, \<^verbatim>\<open>Delete\<close> included.

  After the send of a fetch error there is no return: the goroutine goes straight on to
  read \<^verbatim>\<open>resp.RunState\<close> (line 413). When the response is nil, as it is when the SDK
  returns an error, that read panics before \<^verbatim>\<open>Delete\<close> has acted on the value, so
  the outcome of the receive is the panic. When the response is not nil the goroutine
  stays alive beside \<^verbatim>\<open>Delete\<close>, which goes on with the error received; what the
  goroutine does from there on (it blocks on its next send, or sleeps and fetches again) is
  not part of this function.
\<close>

datatype 'e received = Received "'e option" | GoroutinePanic

partial_function (option) receive ::
  "('w, 'e) Client \<Rightarrow> string \<Rightarrow> 'w \<Rightarrow> 'e event list \<Rightarrow> ('e received \<times> 'w \<times> 'e event list) option"
where
  "receive client instanceID w tr =
     (let ((err, nxt), w') = pollOnce client instanceID w;
          tr1 = tr @ [Call (CallInstanceView instanceID)]
      in (case err of
            Some e \<Rightarrow>
              (case nxt of
                 NilDereference \<Rightarrow> Some (GoroutinePanic, w', tr1 @ [ChanSend (Some e)])
               | Break \<Rightarrow> Some (Received (Some e), w', tr1 @ [ChanSend (Some e)])
               | SleepAndRepeat \<Rightarrow> Some (Received (Some e), w', tr1 @ [ChanSend (Some e)]))
          | None \<Rightarrow>
              (case nxt of
                 NilDereference \<Rightarrow> Some (GoroutinePanic, w', tr1)
               | Break \<Rightarrow> Some (Received None, w', tr1 @ [ChanSend None])
               | SleepAndRepeat \<Rightarrow> receive client instanceID w' (tr1 @ [Sleep Second]))))"

section \<open>Delete\<close>

text \<open>
  \<^verbatim>\<open>is404\<close> is a parameter: applied to an error value (\<open>None\<close> is \<^verbatim>\<open>nil\<close>) it
  answers or panics (\<open>None\<close>).

  The pattern \<^verbatim>\<open>if err != nil { if !is404(err) { AddError(summary, ...); return } }\<close>,
  which follows the list, detach, stop and delete calls: \<open>Inl\<close> ends the callback,
  \<open>Inr\<close> goes on.
\<close>

definition failUnless404 ::
  "('e option \<Rightarrow> bool option) \<Rightarrow> ('e \<Rightarrow> string) \<Rightarrow> string \<Rightarrow> 'e option \<Rightarrow> ('w, 'e) exec
     \<Rightarrow> (ending \<times> ('w, 'e) exec) + ('w, 'e) exec" where
  "failUnless404 is404 Error summary err x =
     (case err of
        None \<Rightarrow> Inr x
      | Some e \<Rightarrow>
          (case is404 (Some e) of
             None \<Rightarrow> Inl (Panicked, x)
           | Some True \<Rightarrow> Inr x
           | Some False \<Rightarrow>
               Inl (Returned, x\<lparr>Diagnostics :=
                 AddError summary (''API error: '' @ Error e) (Diagnostics x)\<rparr>)))"

text \<open>The loop over \<^verbatim>\<open>disks.Items\<close> (lines 347 to 364).\<close>

fun detachLoop ::
  "('e option \<Rightarrow> bool option) \<Rightarrow> ('e \<Rightarrow> string) \<Rightarrow> ('w, 'e) Client \<Rightarrow> string \<Rightarrow> Disk list
     \<Rightarrow> ('w, 'e) exec \<Rightarrow> (ending \<times> ('w, 'e) exec) + ('w, 'e) exec" where
  "detachLoop is404 Error client instanceID [] x = Inr x"
| "detachLoop is404 Error client instanceID (disk # rest) x =
     (let ((_, err), w') = InstanceDiskDetach client instanceID (dId disk) (World x);
          x1 = x\<lparr>World := w',
                 Trace := Trace x @ [Call (CallInstanceDiskDetach instanceID (dId disk))]\<rparr>
      in (case failUnless404 is404 Error ''Unable to detach disk:'' err x1 of
            Inl r \<Rightarrow> Inl r
          | Inr x2 \<Rightarrow> detachLoop is404 Error client instanceID rest x2))"

text \<open>From the receive on the channel to the end (lines 380 to 403). The test
  \<^verbatim>\<open>!is404(e)\<close> is applied to the value received whether or not it is nil, and its
  branch reads \<^verbatim>\<open>e.Error()\<close>.\<close>

definition waitAndDelete ::
  "('e option \<Rightarrow> bool option) \<Rightarrow> ('e \<Rightarrow> string) \<Rightarrow> ('w, 'e) Client \<Rightarrow> string \<Rightarrow> ('w, 'e) exec
     \<Rightarrow> (ending \<times> ('w, 'e) exec) option" where
  "waitAndDelete is404 Error client instanceID x =
     (case receive client instanceID (World x) (Trace x) of
        None \<Rightarrow> None
      | Some (GoroutinePanic, w1, tr1) \<Rightarrow> Some (Panicked, x\<lparr>World := w1, Trace := tr1\<rparr>)
      | Some (Received e, w1, tr1) \<Rightarrow>
          (let x1 = x\<lparr>World := w1, Trace := tr1\<rparr>
           in (case is404 e of
                 None \<Rightarrow> Some (Panicked, x1)
               | Some False \<Rightarrow>
                   (case e of
                      None \<Rightarrow> Some (Panicked, x1)
                    | Some err \<Rightarrow>
                        Some (Returned, x1\<lparr>Diagnostics := AddError ''Unable to stop instance:''
                          (''API error: '' @ Error err) (Diagnostics x1)\<rparr>))
               | Some True \<Rightarrow>
                   (let (err, w2) = InstanceDelete client instanceID (World x1);
                        x2 = x1\<lparr>World := w2,
                                Trace := Trace x1 @ [Call (CallInstanceDelete instanceID)]\<rparr>
                    in (case failUnless404 is404 Error ''Unable to delete instance:'' err x2 of
                          Inl r \<Rightarrow> Some r
                        | Inr x3 \<Rightarrow> Some (Returned, x3))))))"

text \<open>From the stop request to the end (lines 366 to 403).\<close>

definition stopAndDelete ::
  "('e option \<Rightarrow> bool option) \<Rightarrow> ('e \<Rightarrow> string) \<Rightarrow> ('w, 'e) Client \<Rightarrow> string \<Rightarrow> ('w, 'e) exec
     \<Rightarrow> (ending \<times> ('w, 'e) exec) option" where
  "stopAndDelete is404 Error client instanceID x =
     (let ((_, err), w1) = InstanceStop client instanceID (World x);
          x1 = x\<lparr>World := w1, Trace := Trace x @ [Call (CallInstanceStop instanceID)]\<rparr>
      in (case failUnless404 is404 Error ''Unable to stop instance:'' err x1 of
            Inl r \<Rightarrow> Some r
          | Inr x2 \<Rightarrow> waitAndDelete is404 Error client instanceID x2))"

text \<open>The callback up to the stop request (lines 315 to 364), on its own: \<open>Inl\<close> when
  the callback has ended there, \<open>Inr\<close> with the state in which the stop request is
  issued.\<close>

definition listAndDetach ::
  "('e option \<Rightarrow> bool option) \<Rightarrow> ('e \<Rightarrow> string) \<Rightarrow> nat \<Rightarrow> ('w, 'e) Client \<Rightarrow> request \<Rightarrow> 'w
     \<Rightarrow> (ending \<times> ('w, 'e) exec) + ('w, 'e) exec" where
  "listAndDetach is404 Error defaultTimeout client req w =
     (let x0 = start w;
          state = GetModel req;
          x1 = x0\<lparr>Diagnostics := Diagnostics x0 @ GetDiags req\<rparr>
      in if HasError (Diagnostics x1) then Inl (Returned, x1) else
      let (deleteTimeout, diags) = Timeouts_Delete (Timeouts state) defaultTimeout;
          x2 = x1\<lparr>Diagnostics := Diagnostics x1 @ diags\<rparr>
      in if HasError (Diagnostics x2) then Inl (Returned, x2) else
      let instanceID = ValueString (ID state);
          ((disks, err), w1) = InstanceDiskList client instanceID 1000000000 (World x2);
          x3 = x2\<lparr>World := w1,
                  Trace := Trace x2 @ [Call (CallInstanceDiskList instanceID 1000000000)]\<rparr>
      in (case failUnless404 is404 Error ''Unable to list attached disks:'' err x3 of
            Inl r \<Rightarrow> Inl r
          | Inr x4 \<Rightarrow>
              (case disks of
                 None \<Rightarrow> Inl (Panicked, x4)
               | Some page \<Rightarrow> detachLoop is404 Error client instanceID (Items page) x4)))"

text \<open>The whole callback. \<^verbatim>\<open>context.WithTimeout(ctx, deleteTimeout)\<close> is called and its
  context is dropped (\<^verbatim>\<open>_, cancel :=\<close>); no later statement receives a context, so
  \<open>deleteTimeout\<close> has no further use. \<open>None\<close>: the callback never returns.\<close>

definition Delete ::
  "('e option \<Rightarrow> bool option) \<Rightarrow> ('e \<Rightarrow> string) \<Rightarrow> nat \<Rightarrow> ('w, 'e) Client \<Rightarrow> request \<Rightarrow> 'w
     \<Rightarrow> (ending \<times> ('w, 'e) exec) option" where
  "Delete is404 Error defaultTimeout client req w =
     (let x0 = start w;
          state = GetModel req;
          x1 = x0\<lparr>Diagnostics := Diagnostics x0 @ GetDiags req\<rparr>
      in if HasError (Diagnostics x1) then Some (Returned, x1) else
      let (deleteTimeout, diags) = Timeouts_Delete (Timeouts state) defaultTimeout;
          x2 = x1\<lparr>Diagnostics := Diagnostics x1 @ diags\<rparr>
      in if HasError (Diagnostics x2) then Some (Returned, x2) else
      let instanceID = ValueString (ID state);
          ((disks, err), w1) = InstanceDiskList client instanceID 1000000000 (World x2);
          x3 = x2\<lparr>World := w1,
                  Trace := Trace x2 @ [Call (CallInstanceDiskList instanceID 1000000000)]\<rparr>
      in (case failUnless404 is404 Error ''Unable to list attached disks:'' err x3 of
            Inl r \<Rightarrow> Some r
          | Inr x4 \<Rightarrow>
              (case disks of
                 None \<Rightarrow> Some (Panicked, x4)
               | Some page \<Rightarrow>
                   (case detachLoop is404 Error client instanceID (Items page) x4 of
                      Inl r \<Rightarrow> Some r
                    | Inr x5 \<Rightarrow> stopAndDelete is404 Error client instanceID x5))))"

section \<open>Scenarios\<close>

text \<open>A remote system for the examples: its errors, two readings of \<^verbatim>\<open>is404\<close> that
  differ on nil only (the first reads the text of its argument and so panics on nil, the
  second tests for nil first), and a client that answers from a script. The state of the
  scripted remote system is the number of view calls it has answered.\<close>

datatype apiError = NotFound | ServerError

fun errorText :: "apiError \<Rightarrow> string" where
  "errorText NotFound = ''404 Not Found''"
| "errorText ServerError = ''500 Internal Server Error''"

definition is404Unguarded :: "apiError option \<Rightarrow> bool option" where
  "is404Unguarded err = (case err of None \<Rightarrow> None | Some e \<Rightarrow> Some (e = NotFound))"

definition is404Guarded :: "apiError option \<Rightarrow> bool option" where
  "is404Guarded err = (case err of None \<Rightarrow> Some False | Some e \<Rightarrow> Some (e = NotFound))"

record script =
  onCreate :: "Instance option \<times> apiError option"
  onList :: "DiskResultsPage option \<times> apiError option"
  onDetach :: "Disk option \<times> apiError option"
  onStop :: "Instance option \<times> apiError option"
  onView :: "nat \<Rightarrow> Instance option \<times> apiError option"
  onDelete :: "apiError option"

definition scripted :: "script \<Rightarrow> (nat, apiError) Client" where
  "scripted s =
     \<lparr>InstanceCreate = (\<lambda>params n. (onCreate s, n)),
      InstanceView = (\<lambda>instanceID n. (onView s n, Suc n)),
      InstanceDiskList = (\<lambda>instanceID limit n. (onList s, n)),
      InstanceDiskDetach = (\<lambda>instanceID disk n. (onDetach s, n)),
      InstanceStop = (\<lambda>instanceID n. (onStop s, n)),
      InstanceDelete = (\<lambda>instanceID n. (onDelete s, n))\<rparr>"

definition anInstance :: "InstanceState \<Rightarrow> Instance" where
  "anInstance rs =
     \<lparr>iDescription = ''a test'', iHostname = ''host'', iId = ''id-1'',
      iMemory = 1073741824, iName = ''acc-project'', iNcpus = 2, iProjectId = ''proj-1'',
      iRunState = rs, iTimeCreated = ''2023-01-01 00:00:00 +0000 UTC'',
      iTimeModified = ''2023-02-02 00:00:00 +0000 UTC''\<rparr>"

text \<open>A plan, also used as prior state: one disk to attach, and a delete timeout of two
  seconds.\<close>

definition aModel :: instanceResourceModel where
  "aModel =
     \<lparr>AttachToDisks = ListValue [''\"disk-1\"''], Description = StringValue ''a test'',
      ExternalIPs = ListNull, HostName = StringValue ''host'', ID = StringValue ''id-1'',
      Memory = Int64Value 1073741824, Name = StringValue ''acc-project'',
      NCPUs = Int64Value 2, ProjectID = StringValue ''proj-1'',
      StartOnCreate = BoolValue True, TimeCreated = StringUnknown,
      TimeModified = StringUnknown,
      Timeouts = \<lparr>createAttr = TimeoutUnset, readAttr = TimeoutUnset,
                  deleteAttr = TimeoutDuration (2 * Second)\<rparr>,
      UserData = StringNull\<rparr>"

definition aRequest :: request where
  "aRequest = \<lparr>GetDiags = [], GetModel = aModel\<rparr>"

text \<open>A stand-in for \<^verbatim>\<open>strconv.Unquote\<close> in the examples: text between two double
  quotes with no quote, backslash or newline inside is unquoted to what is between them,
  and anything else is refused.\<close>

definition unquoteSimple :: "string \<Rightarrow> string option" where
  "unquoteSimple s =
     (if 2 \<le> length s \<and> hd s = CHR 0x22 \<and> last s = CHR 0x22
         \<and> list_all (\<lambda>c. c \<noteq> CHR 0x22 \<and> c \<noteq> CHR 0x5C \<and> c \<noteq> CHR 0x0A) (butlast (tl s))
      then Some (butlast (tl s)) else None)"

text \<open>A remote system on which every step works: one disk is attached, and the instance
  is seen stopping twice before it is seen stopped.\<close>

definition healthy :: script where
  "healthy =
     \<lparr>onCreate = (Some (anInstance InstanceStateRunning), None),
      onList = (Some \<lparr>Items = [\<lparr>dId = ''disk-1''\<rparr>]\<rparr>, None),
      onDetach = (Some \<lparr>dId = ''disk-1''\<rparr>, None),
      onStop = (Some (anInstance InstanceStateStopping), None),
      onView = (\<lambda>n. (Some (anInstance (if n < 2 then InstanceStateStopping
                                          else InstanceStateStopped)), None)),
      onDelete = None\<rparr>"

text \<open>The same, but the instance is seen running for ever.\<close>

definition neverStopped :: script where
  "neverStopped = healthy\<lparr>onView := (\<lambda>n. (Some (anInstance InstanceStateRunning), None))\<rparr>"

text \<open>The first fetch fails and still hands back an instance; the second sees the
  instance stopped.\<close>

definition errorThenStopped :: script where
  "errorThenStopped =
     healthy\<lparr>onView := (\<lambda>n. if n = 0 then (Some (anInstance InstanceStateRunning), Some ServerError)
                              else (Some (anInstance InstanceStateStopped), None))\<rparr>"

text \<open>The instance is gone: every call fails with not-found and hands back a nil
  result, as a Go function that returns an error does.\<close>

definition gone :: script where
  "gone =
     \<lparr>onCreate = (None, Some NotFound),
      onList = (None, Some NotFound),
      onDetach = (None, Some NotFound),
      onStop = (None, Some NotFound),
      onView = (\<lambda>n. (None, Some NotFound)),
      onDelete = Some NotFound\<rparr>"

text \<open>No disk is attached and the list call succeeds; from the stop request on, every
  call fails with not-found.\<close>

definition stopGone :: script where
  "stopGone = gone\<lparr>onList := (Some \<lparr>Items = []\<rparr>, None)\<rparr>"

text \<open>No disk is attached, the stop request fails with not-found, and the fetch of the
  poll fails with a server error.\<close>

definition stopGonePollFails :: script where
  "stopGonePollFails =
     gone\<lparr>onList := (Some \<lparr>Items = []\<rparr>, None), onView := (\<lambda>n. (None, Some ServerError))\<rparr>"

section \<open>Facts about the model\<close>

lemma scripted_simps:
  "InstanceCreate (scripted s) params n = (onCreate s, n)"
  "InstanceView (scripted s) instanceID n = (onView s n, Suc n)"
  "InstanceDiskList (scripted s) instanceID limit n = (onList s, n)"
  "InstanceDiskDetach (scripted s) instanceID disk n = (onDetach s, n)"
  "InstanceStop (scripted s) instanceID n = (onStop s, n)"
  "InstanceDelete (scripted s) instanceID n = (onDelete s, n)"
  by (simp_all add: scripted_def)

lemmas read_defs = Read_def Let_def start_def aRequest_def aModel_def HasError_def
  Timeouts_Read_def scripted_simps healthy_def anInstance_def

lemmas delete_defs = Delete_def stopAndDelete_def waitAndDelete_def Let_def start_def
  HasError_def Timeouts_Delete_def aRequest_def aModel_def failUnless404_def scripted_simps
  AddError_def pollOnce_def anInstance_def is404Unguarded_def is404Guarded_def

subsection \<open>Diagnostics and the loops of Create\<close>

lemma HasError_append: "HasError (xs @ ys) = (HasError xs \<or> HasError ys)"
  by (induction xs) (simp_all add: HasError_def)

lemma HasError_AddError: "HasError (AddError summary detail ds)"
  by (simp add: HasError_def AddError_def list_ex_iff)

lemma HasError_Nil: "\<not> HasError []"
  by (simp add: HasError_def)

lemma diskAttachmentsLoop_None:
  "(diskAttachmentsLoop unquote ds acc = None) = (\<exists>d \<in> set ds. unquote d = None)"
  by (induction ds arbitrary: acc) (auto split: option.splits)

subsection \<open>The poll\<close>

text \<open>A poll that returns has met a pass that did not end in the sleep; so a remote
  system on which every fetch succeeds with a state other than stopped keeps the poll
  running for ever.\<close>

lemma receive_Some_not_always_sleep:
  assumes "receive client i w tr = Some y"
  shows "\<exists>w. fst (pollOnce client i w) \<noteq> (None, SleepAndRepeat)"
proof (rule receive.raw_induct
    [where P = "\<lambda>client i w tr y. \<exists>w. fst (pollOnce client i w) \<noteq> (None, SleepAndRepeat)",
      OF _ assms], goal_cases)
  case (1 rcv client i w tr y)
  show ?case
  proof (cases "fst (pollOnce client i w) = (None, SleepAndRepeat)")
    case True
    then obtain w' where p: "pollOnce client i w = ((None, SleepAndRepeat), w')"
      by (cases "pollOnce client i w") auto
    from 1(2) p have "rcv client i w' ((tr @ [Call (CallInstanceView i)]) @ [Sleep Second]) = Some y"
      by (simp add: Let_def)
    then show ?thesis by (rule 1(1))
  next
    case False
    then show ?thesis by blast
  qed
qed

lemma receive_diverges:
  assumes "\<And>w. fst (pollOnce client i w) = (None, SleepAndRepeat)"
  shows "receive client i w tr = None"
  using receive_Some_not_always_sleep [of client i w tr] assms
  by (cases "receive client i w tr") auto

text \<open>The poll starts with a fetch, and only adds to the trace.\<close>

lemma receive_trace:
  assumes "receive client i w tr = Some y"
  shows "\<exists>post. snd (snd y) = tr @ Call (CallInstanceView i) # post"
proof (rule receive.raw_induct
    [where P = "\<lambda>client i w tr y. \<exists>post. snd (snd y) = tr @ Call (CallInstanceView i) # post",
      OF _ assms], goal_cases)
  case (1 rcv client i w tr y)
  obtain err nxt w' where p: "pollOnce client i w = ((err, nxt), w')"
    by (cases "pollOnce client i w") auto
  show ?case
  proof (cases err)
    case (Some e)
    with 1(2) p show ?thesis by (auto simp: Let_def split: loopExit.splits)
  next
    case None
    show ?thesis
    proof (cases nxt)
      case SleepAndRepeat
      with 1(2) p None
      have "rcv client i w' ((tr @ [Call (CallInstanceView i)]) @ [Sleep Second]) = Some y"
        by (simp add: Let_def)
      from 1(1) [OF this] show ?thesis by auto
    qed (use 1(2) p None in \<open>auto simp: Let_def\<close>)
  qed
qed

text \<open>The value nil is received only right after a fetch that succeeded and saw the
  instance stopped: the state of the remote system at the receive is the one that fetch
  left.\<close>

lemma receive_nil_stopped:
  assumes "receive client i w tr = Some y"
  shows "fst y = Received None \<longrightarrow>
    (\<exists>w0 inst. InstanceView client i w0 = ((Some inst, None), fst (snd y))
        \<and> iRunState inst = InstanceStateStopped)"
proof (rule receive.raw_induct
    [where P = "\<lambda>client i w tr y. fst y = Received None \<longrightarrow>
      (\<exists>w0 inst. InstanceView client i w0 = ((Some inst, None), fst (snd y))
        \<and> iRunState inst = InstanceStateStopped)",
      OF _ assms], goal_cases)
  case (1 rcv client i w tr y)
  obtain resp err w' where v: "InstanceView client i w = ((resp, err), w')"
    by (cases "InstanceView client i w") auto
  show ?case
  proof (cases err)
    case (Some e)
    with 1(2) v show ?thesis
      by (auto simp: Let_def pollOnce_def split: loopExit.splits option.splits if_splits)
  next
    case None
    show ?thesis
    proof (cases resp)
      case n: None
      with 1(2) v None show ?thesis by (auto simp: Let_def pollOnce_def)
    next
      case (Some inst)
      show ?thesis
      proof (cases "iRunState inst = InstanceStateStopped")
        case True
        with 1(2) v None Some have "fst (snd y) = w'"
          by (auto simp: Let_def pollOnce_def)
        with v None Some True
        have "InstanceView client i w = ((Some inst, None), fst (snd y)) \<and>
            iRunState inst = InstanceStateStopped" by simp
        then show ?thesis by blast
      next
        case False
        with 1(2) v None Some
        have "rcv client i w' ((tr @ [Call (CallInstanceView i)]) @ [Sleep Second]) = Some y"
          by (simp add: Let_def pollOnce_def)
        from 1(1) [OF this] show ?thesis .
      qed
    qed
  qed
qed

text \<open>A value received is the last thing in the trace.\<close>

lemma receive_last:
  assumes "receive client i w tr = Some y"
  shows "\<forall>v. fst y = Received v \<longrightarrow> (\<exists>pre. snd (snd y) = pre @ [ChanSend v])"
proof (rule receive.raw_induct
    [where P = "\<lambda>client i w tr y.
        \<forall>v. fst y = Received v \<longrightarrow> (\<exists>pre. snd (snd y) = pre @ [ChanSend v])",
      OF _ assms], goal_cases)
  case (1 rcv client i w tr y)
  obtain err nxt w' where p: "pollOnce client i w = ((err, nxt), w')"
    by (cases "pollOnce client i w") auto
  show ?case
  proof (cases err)
    case (Some e)
    with 1(2) p show ?thesis by (auto simp: Let_def split: loopExit.splits)
  next
    case None
    show ?thesis
    proof (cases nxt)
      case SleepAndRepeat
      with 1(2) p None
      have "rcv client i w' ((tr @ [Call (CallInstanceView i)]) @ [Sleep Second]) = Some y"
        by (simp add: Let_def)
      from 1(1) [OF this] show ?thesis .
    qed (use 1(2) p None in \<open>auto simp: Let_def\<close>)
  qed
qed

text \<open>The receive in \<^verbatim>\<open>Delete\<close> agrees with the function run as a process: what has
  happened when the first value is received is the beginning of what the process does.\<close>

lemma waitForStoppedInstance_trace:
  assumes "waitForStoppedInstance client i w tr = Some z"
  shows "\<exists>post. snd (snd z) = tr @ post"
proof (rule waitForStoppedInstance.raw_induct
    [where P = "\<lambda>client i w tr z. \<exists>post. snd (snd z) = tr @ post", OF _ assms], goal_cases)
  case (1 wfs client i w tr z)
  obtain err nxt w' where p: "pollOnce client i w = ((err, nxt), w')"
    by (cases "pollOnce client i w") auto
  let ?tr2 = "case err of Some e \<Rightarrow> (tr @ [Call (CallInstanceView i)]) @ [ChanSend (Some e)]
                | None \<Rightarrow> tr @ [Call (CallInstanceView i)]"
  have tr2: "\<exists>mid. ?tr2 = tr @ mid" by (cases err) auto
  show ?case
  proof (cases nxt)
    case SleepAndRepeat
    with 1(2) p have "wfs client i w' (?tr2 @ [Sleep Second]) = Some z"
      by (simp add: Let_def)
    from 1(1) [OF this] tr2 show ?thesis by (metis append.assoc)
  next
    case Break
    with 1(2) p have "snd (snd z) = ?tr2 @ [ChanSend None]" by (auto simp: Let_def)
    with tr2 show ?thesis by (metis append.assoc)
  next
    case NilDereference
    with 1(2) p have "snd (snd z) = ?tr2" by (auto simp: Let_def)
    with tr2 show ?thesis by metis
  qed
qed

lemma receive_prefix_of_waitForStoppedInstance:
  assumes "receive client i w tr = Some y"
  shows "\<forall>z. waitForStoppedInstance client i w tr = Some z \<longrightarrow>
           (\<exists>post. snd (snd z) = snd (snd y) @ post)"
proof (rule receive.raw_induct
    [where P = "\<lambda>client i w tr y. \<forall>z. waitForStoppedInstance client i w tr = Some z \<longrightarrow>
           (\<exists>post. snd (snd z) = snd (snd y) @ post)",
      OF _ assms], goal_cases)
  case (1 rcv client i w tr y)
  obtain err nxt w' where p: "pollOnce client i w = ((err, nxt), w')"
    by (cases "pollOnce client i w") auto
  show ?case
  proof (intro allI impI)
    fix z
    assume z: "waitForStoppedInstance client i w tr = Some z"
    show "\<exists>post. snd (snd z) = snd (snd y) @ post"
    proof (cases err)
      case (Some e)
      from 1(2) p Some have y: "snd (snd y) = tr @ [Call (CallInstanceView i), ChanSend (Some e)]"
        by (auto simp: Let_def split: loopExit.splits)
      let ?tr2 = "(tr @ [Call (CallInstanceView i)]) @ [ChanSend (Some e)]"
      have y': "snd (snd y) = ?tr2" using y by simp
      show ?thesis
      proof (cases nxt)
        case SleepAndRepeat
        with z p Some
        have "waitForStoppedInstance client i w' (?tr2 @ [Sleep Second]) = Some z"
          by (subst (asm) waitForStoppedInstance.simps) (simp add: Let_def)
        from waitForStoppedInstance_trace [OF this] y' show ?thesis
          by (metis append.assoc)
      next
        case Break
        with z p Some have "snd (snd z) = ?tr2 @ [ChanSend None]"
          by (subst (asm) waitForStoppedInstance.simps) (auto simp: Let_def)
        with y' show ?thesis by metis
      next
        case NilDereference
        with z p Some have "snd (snd z) = ?tr2"
          by (subst (asm) waitForStoppedInstance.simps) (auto simp: Let_def)
        with y' show ?thesis by simp
      qed
    next
      case None
      show ?thesis
      proof (cases nxt)
        case SleepAndRepeat
        with 1(2) p None
        have r: "rcv client i w' ((tr @ [Call (CallInstanceView i)]) @ [Sleep Second]) = Some y"
          by (simp add: Let_def)
        from z p None SleepAndRepeat
        have "waitForStoppedInstance client i w' ((tr @ [Call (CallInstanceView i)]) @ [Sleep Second]) = Some z"
          by (subst (asm) waitForStoppedInstance.simps) (simp add: Let_def)
        with 1(1) [OF r] show ?thesis by blast
      next
        case Break
        with 1(2) p None have "snd (snd y) = tr @ [Call (CallInstanceView i), ChanSend None]"
          by (auto simp: Let_def)
        moreover from z p None Break have "snd (snd z) = tr @ [Call (CallInstanceView i), ChanSend None]"
          by (subst (asm) waitForStoppedInstance.simps) (auto simp: Let_def)
        ultimately show ?thesis by simp
      next
        case NilDereference
        with 1(2) p None have "snd (snd y) = tr @ [Call (CallInstanceView i)]"
          by (auto simp: Let_def)
        moreover from z p None NilDereference have "snd (snd z) = tr @ [Call (CallInstanceView i)]"
          by (subst (asm) waitForStoppedInstance.simps) (auto simp: Let_def)
        ultimately show ?thesis by simp
      qed
    qed
  qed
qed

lemma pollOnce_neverStopped:
  "fst (pollOnce (scripted neverStopped) i w) = (None, SleepAndRepeat)"
  by (simp add: pollOnce_def scripted_simps neverStopped_def healthy_def anInstance_def)

text \<open>After a failed fetch that hands back an instance, the loop goes on: here it sends
  the error, sleeps, fetches again and sends nil.\<close>

lemma waitForStoppedInstance_errorThenStopped:
  "waitForStoppedInstance (scripted errorThenStopped) ''id-1'' 0 [] =
     Some (Returned, 2, [Call (CallInstanceView ''id-1''), ChanSend (Some ServerError),
       Sleep Second, Call (CallInstanceView ''id-1''), ChanSend None])"
  by (simp add: waitForStoppedInstance.simps delete_defs healthy_def errorThenStopped_def)

subsection \<open>The steps of Delete\<close>

lemma failUnless404_trace:
  "failUnless404 is404 Error summary err x = Inl (en, x') \<Longrightarrow> Trace x' = Trace x"
  "failUnless404 is404 Error summary err x = Inr x'' \<Longrightarrow> x'' = x"
  by (auto simp: failUnless404_def split: option.splits bool.splits)

lemma waitAndDelete_trace:
  assumes "waitAndDelete is404 Error client i x = Some (en, x')"
  shows "\<exists>post. Trace x' = Trace x @ Call (CallInstanceView i) # post"
proof -
  from assms obtain rc w1 tr1 where r: "receive client i (World x) (Trace x) = Some (rc, w1, tr1)"
    by (auto simp: waitAndDelete_def split: option.splits)
  from receive_trace [OF r] obtain post where tr1: "tr1 = Trace x @ Call (CallInstanceView i) # post"
    by auto
  from assms r have "Trace x' = tr1 \<or> Trace x' = tr1 @ [Call (CallInstanceDelete i)]"
    by (auto simp: waitAndDelete_def Let_def failUnless404_def
        split: received.splits option.splits bool.splits prod.splits sum.splits)
  with tr1 show ?thesis by auto
qed

text \<open>A stop request that fails with not-found hands over to the poll.\<close>

lemma stopAndDelete_not_found:
  assumes "snd (fst (InstanceStop client i (World x))) = Some e"
    and "is404 (Some e) = Some True"
  shows "stopAndDelete is404 Error client i x =
     waitAndDelete is404 Error client i
       (x\<lparr>World := snd (InstanceStop client i (World x)),
          Trace := Trace x @ [Call (CallInstanceStop i)]\<rparr>)"
  using assms
  by (cases "InstanceStop client i (World x)")
    (auto simp: stopAndDelete_def failUnless404_def)

text \<open>What the poll and the delete call add to the diagnostics: nothing, or the one error
  of the poll (the error received, when it is not a not-found), or the one error of the
  delete call.\<close>

lemma waitAndDelete_diagnostics:
  assumes "waitAndDelete is404 Error client i x = Some (en, x')"
  shows "Diagnostics x' = Diagnostics x
     \<or> (\<exists>e'. en = Returned \<and> last (Trace x') = ChanSend (Some e')
            \<and> is404 (Some e') = Some False
            \<and> Diagnostics x' = Diagnostics x @
                 [ErrorDiag ''Unable to stop instance:'' (''API error: '' @ Error e')])
     \<or> (\<exists>e'. en = Returned \<and> last (Trace x') = Call (CallInstanceDelete i)
            \<and> is404 (Some e') = Some False
            \<and> Diagnostics x' = Diagnostics x @
                 [ErrorDiag ''Unable to delete instance:'' (''API error: '' @ Error e')])"
proof -
  from assms obtain rc w1 tr1 where r: "receive client i (World x) (Trace x) = Some (rc, w1, tr1)"
    by (auto simp: waitAndDelete_def split: option.splits)
  show ?thesis
  proof (cases rc)
    case GoroutinePanic
    with assms r show ?thesis by (auto simp: waitAndDelete_def)
  next
    case (Received v)
    with receive_last [OF r] obtain pre where tr1: "tr1 = pre @ [ChanSend v]" by auto
    let ?x1 = "x\<lparr>World := w1, Trace := tr1\<rparr>"
    show ?thesis
    proof (cases "is404 v")
      case None
      with assms r Received show ?thesis by (auto simp: waitAndDelete_def Let_def)
    next
      case (Some b)
      show ?thesis
      proof (cases b)
        case False
        with assms r Received Some tr1 show ?thesis
          by (cases v) (auto simp: waitAndDelete_def Let_def AddError_def)
      next
        case True
        obtain err w2 where d: "InstanceDelete client i w1 = (err, w2)"
          by (cases "InstanceDelete client i w1") auto
        from assms r Received Some True d show ?thesis
          by (auto simp: waitAndDelete_def Let_def failUnless404_def AddError_def
              split: option.splits bool.splits)
      qed
    qed
  qed
qed

text \<open>\<^verbatim>\<open>Delete\<close> is its first part followed by the part from the stop request on.\<close>

lemma Delete_listAndDetach:
  "Delete is404 Error dflt client req w =
     (case listAndDetach is404 Error dflt client req w of
        Inl r \<Rightarrow> Some r
      | Inr x \<Rightarrow> stopAndDelete is404 Error client (ValueString (ID (GetModel req))) x)"
  by (simp add: Delete_def listAndDetach_def Let_def split: prod.splits sum.splits option.splits)

text \<open>Whatever the client: when the poll hands over nil and \<^verbatim>\<open>is404\<close> does not take
  nil for a not-found error, the callback panics where it is and issues no delete call.\<close>

lemma waitAndDelete_nil:
  assumes "receive client i (World x) (Trace x) = Some (Received None, w1, tr1)"
    and "is404 None \<noteq> Some True"
  shows "waitAndDelete is404 Error client i x = Some (Panicked, x\<lparr>World := w1, Trace := tr1\<rparr>)"
  using assms by (auto simp: waitAndDelete_def Let_def split: option.splits bool.splits)

text \<open>The duration of the delete timeout does not reach the result.\<close>

lemma Delete_ignores_deleteTimeout:
  "Delete is404 Error dflt client
     (req\<lparr>GetModel := (GetModel req)\<lparr>Timeouts :=
        (Timeouts (GetModel req))\<lparr>deleteAttr := TimeoutDuration d\<rparr>\<rparr>\<rparr>) w =
   Delete is404 Error dflt client
     (req\<lparr>GetModel := (GetModel req)\<lparr>Timeouts :=
        (Timeouts (GetModel req))\<lparr>deleteAttr := TimeoutDuration d'\<rparr>\<rparr>\<rparr>) w"
  by (simp add: Delete_def Timeouts_Delete_def Let_def)

subsection \<open>Runs of the scenarios\<close>

lemma Create_healthy:
  "Create unquoteSimple errorText (600 * Second) (scripted healthy) aRequest 0 =
     (Returned,
      \<lparr>World = 0,
       Trace = [Call (CallInstanceCreate
         \<lparr>pProject = ''proj-1'',
          pBody = \<lparr>bDescription = ''a test'', bName = ''acc-project'', bHostname = ''host'',
            bMemory = 1073741824, bNcpus = 2, bStart = True,
            bNetworkInterfaces = InstanceNetworkInterfaceAttachmentTypeNone,
            bUserData = [],
            bDisks = [\<lparr>daName = ''disk-1'', daType = InstanceDiskAttachmentTypeAttach\<rparr>],
            bExternalIps = []\<rparr>\<rparr>)],
       Diagnostics = [],
       State = Some (aModel\<lparr>ID := StringValue ''id-1'',
         TimeCreated := StringValue ''2023-01-01 00:00:00 +0000 UTC'',
         TimeModified := StringValue ''2023-01-01 00:00:00 +0000 UTC''\<rparr>)\<rparr>)"
  by (simp add: Create_def Let_def start_def aRequest_def aModel_def HasError_def
      Timeouts_Create_def createBody_def unquoteSimple_def scripted_simps healthy_def
      anInstance_def)

lemma Read_healthy:
  "Read errorText (600 * Second) (scripted healthy) aRequest 0 =
     (Returned,
      \<lparr>World = 1, Trace = [Call (CallInstanceView ''id-1'')], Diagnostics = [],
       State = Some (aModel\<lparr>
         Description := StringValue ''a test'', HostName := StringValue ''host'',
         ID := StringValue ''id-1'', Memory := Int64Value 1073741824,
         Name := StringValue ''acc-project'', NCPUs := Int64Value 2,
         ProjectID := StringValue ''proj-1'',
         TimeCreated := StringValue ''2023-01-01 00:00:00 +0000 UTC'',
         TimeModified := StringValue ''2023-01-01 00:00:00 +0000 UTC''\<rparr>)\<rparr>)"
  by (simp add: read_defs)

lemma listAndDetach_stopGone:
  "listAndDetach is404Guarded errorText (600 * Second) (scripted stopGone) aRequest 0 =
     Inr \<lparr>World = 0, Trace = [Call (CallInstanceDiskList ''id-1'' 1000000000)],
          Diagnostics = [], State = None\<rparr>"
  by (simp add: listAndDetach_def delete_defs gone_def stopGone_def)

section \<open>Update\<close>

text \<open>C8. Whatever the request, the client and the state of the remote system,
  \<^verbatim>\<open>Update\<close> returns with the one error that updating is not supported, issues no
  remote call, leaves the remote system as it was and saves no state.\<close>

theorem Update_always_unsupported:
  "fst (Update client req w) = Returned
   \<and> Diagnostics (snd (Update client req w)) =
       [ErrorDiag ''Error updating instance''
          ''the oxide API currently does not support updating instances'']
   \<and> HasError (Diagnostics (snd (Update client req w)))
   \<and> Trace (snd (Update client req w)) = []
   \<and> World (snd (Update client req w)) = w
   \<and> State (snd (Update client req w)) = None"
  by (simp add: Update_def start_def AddError_def HasError_def Let_def)

section \<open>Create\<close>

text \<open>C9. When some entry of the disk list does not unquote, \<^verbatim>\<open>Create\<close> returns
  with an error, and it has issued no remote call at all: the remote system is untouched,
  the trace is empty, so no attachment list (partial or not) has been submitted, and no
  state is saved. When the plan and the timeout were read without error, the error added
  is the one of the disk loop.\<close>

theorem Create_rejects_malformed_disk_token:
  assumes "d \<in> set (Elements (AttachToDisks (GetModel req)))"
    and "unquote d = None"
  shows "fst (Create unquote Error dflt client req w) = Returned
   \<and> HasError (Diagnostics (snd (Create unquote Error dflt client req w)))
   \<and> Trace (snd (Create unquote Error dflt client req w)) = []
   \<and> World (snd (Create unquote Error dflt client req w)) = w
   \<and> State (snd (Create unquote Error dflt client req w)) = None
   \<and> (\<not> HasError (GetDiags req)
        \<and> \<not> HasError (snd (Timeouts_Create (Timeouts (GetModel req)) dflt))
      \<longrightarrow> Diagnostics (snd (Create unquote Error dflt client req w)) =
            GetDiags req @ snd (Timeouts_Create (Timeouts (GetModel req)) dflt)
              @ [ErrorDiag ''Error attaching instance to disk''
                   (''IP pool name parse error: '' @ ErrSyntax)])"
proof -
  have loop: "diskAttachmentsLoop unquote (Elements (AttachToDisks (GetModel req))) [] = None"
    using assms by (auto simp: diskAttachmentsLoop_None)
  show ?thesis
    by (cases "Timeouts_Create (Timeouts (GetModel req)) dflt")
      (auto simp: Create_def Let_def loop start_def HasError_append HasError_AddError HasError_Nil
        AddError_def HasError_def)
qed

text \<open>C9 at a plan whose second disk entry is the rendering of a null value: the first
  entry unquotes, the second does not, and the only diagnostic is the error of the disk
  loop.\<close>

theorem Create_rejects_malformed_disk_token_witness:
  "''<null>'' \<in> set (Elements (AttachToDisks
       (GetModel (aRequest\<lparr>GetModel := aModel\<lparr>AttachToDisks :=
          ListValue [''\"disk-1\"'', ''<null>'']\<rparr>\<rparr>))))
   \<and> unquoteSimple ''<null>'' = None
   \<and> unquoteSimple ''\"disk-1\"'' = Some ''disk-1''
   \<and> Diagnostics (snd (Create unquoteSimple errorText (600 * Second) (scripted healthy)
        (aRequest\<lparr>GetModel := aModel\<lparr>AttachToDisks :=
          ListValue [''\"disk-1\"'', ''<null>'']\<rparr>\<rparr>) 0)) =
       [ErrorDiag ''Error attaching instance to disk''
          (''IP pool name parse error: '' @ ErrSyntax)]
   \<and> Trace (snd (Create unquoteSimple errorText (600 * Second) (scripted healthy)
        (aRequest\<lparr>GetModel := aModel\<lparr>AttachToDisks :=
          ListValue [''\"disk-1\"'', ''<null>'']\<rparr>\<rparr>) 0)) = []"
proof -
  let ?req = "aRequest\<lparr>GetModel := aModel\<lparr>AttachToDisks :=
          ListValue [''\"disk-1\"'', ''<null>'']\<rparr>\<rparr>"
  have h1: "''<null>'' \<in> set (Elements (AttachToDisks (GetModel ?req)))"
    by simp
  have h2: "unquoteSimple ''<null>'' = None"
    by (simp add: unquoteSimple_def)
  have h3: "unquoteSimple ''\"disk-1\"'' = Some ''disk-1''"
    by (simp add: unquoteSimple_def)
  have h4: "\<not> HasError (GetDiags ?req)
     \<and> \<not> HasError (snd (Timeouts_Create (Timeouts (GetModel ?req)) (600 * Second)))"
    by (simp add: aRequest_def aModel_def Timeouts_Create_def HasError_def)
  have h5: "GetDiags ?req @ snd (Timeouts_Create (Timeouts (GetModel ?req)) (600 * Second)) = []"
    by (simp add: aRequest_def aModel_def Timeouts_Create_def)
  from Create_rejects_malformed_disk_token [of "''<null>''" ?req unquoteSimple errorText
      "600 * Second" "scripted healthy" 0] h1 h2 h4 h5
  show ?thesis using h3 by simp
qed

text \<open>C10. When \<^verbatim>\<open>Create\<close> returns without an error, it has saved a state, and that
  state is the plan with the fields \<open>ID\<close>, \<open>TimeCreated\<close> and \<open>TimeModified\<close>
  overwritten and nothing else changed: name, description, host name, memory, CPU count,
  project, start flag, disk list, IP list, user data and timeouts are the caller's.\<close>

theorem Create_saves_plan_with_computed_fields:
  assumes "Create unquote Error dflt client req w = (Returned, x)"
    and "\<not> HasError (Diagnostics x)"
  shows "\<exists>s. State x = Some s
     \<and> s = (GetModel req)\<lparr>ID := ID s, TimeCreated := TimeCreated s,
                           TimeModified := TimeModified s\<rparr>
     \<and> Name s = Name (GetModel req)
     \<and> Description s = Description (GetModel req)
     \<and> HostName s = HostName (GetModel req)
     \<and> Memory s = Memory (GetModel req)
     \<and> NCPUs s = NCPUs (GetModel req)
     \<and> ProjectID s = ProjectID (GetModel req)
     \<and> StartOnCreate s = StartOnCreate (GetModel req)
     \<and> AttachToDisks s = AttachToDisks (GetModel req)
     \<and> ExternalIPs s = ExternalIPs (GetModel req)
     \<and> UserData s = UserData (GetModel req)
     \<and> Timeouts s = Timeouts (GetModel req)"
  using assms
  by (auto simp: Create_def Let_def start_def HasError_append HasError_AddError HasError_Nil
      split: if_splits prod.splits option.splits)

text \<open>C10 at the plan of the examples, created on the healthy remote system.\<close>

theorem Create_saves_plan_with_computed_fields_witness:
  "\<exists>x. Create unquoteSimple errorText (600 * Second) (scripted healthy) aRequest 0 = (Returned, x)
     \<and> \<not> HasError (Diagnostics x)
     \<and> (\<exists>s. State x = Some s
          \<and> s = aModel\<lparr>ID := ID s, TimeCreated := TimeCreated s, TimeModified := TimeModified s\<rparr>
          \<and> Name s = StringValue ''acc-project''
          \<and> AttachToDisks s = ListValue [''\"disk-1\"'']
          \<and> StartOnCreate s = BoolValue True)"
proof -
  obtain x where run: "Create unquoteSimple errorText (600 * Second) (scripted healthy) aRequest 0
      = (Returned, x)" and ok: "\<not> HasError (Diagnostics x)"
    using Create_healthy by (simp add: HasError_def)
  from Create_saves_plan_with_computed_fields [OF run ok] run ok
  show ?thesis by (auto simp: aRequest_def aModel_def)
qed

text \<open>C5. The claim is that the saved last-modified timestamp is the modification
  timestamp of the response. On the healthy remote system the response carries a
  modification timestamp that differs from its creation timestamp, and the state
  \<^verbatim>\<open>Create\<close> saves has the creation timestamp in both \<open>TimeCreated\<close> and
  \<open>TimeModified\<close>: line 246 reads \<^verbatim>\<open>instance.TimeCreated\<close>.\<close>

theorem Create_stores_creation_time_as_modified:
  "State (snd (Create unquoteSimple errorText (600 * Second) (scripted healthy) aRequest 0)) =
     Some (aModel\<lparr>ID := StringValue (iId (anInstance InstanceStateRunning)),
       TimeCreated := StringValue (iTimeCreated (anInstance InstanceStateRunning)),
       TimeModified := StringValue (iTimeCreated (anInstance InstanceStateRunning))\<rparr>)
   \<and> onCreate healthy = (Some (anInstance InstanceStateRunning), None)
   \<and> iTimeModified (anInstance InstanceStateRunning)
       \<noteq> iTimeCreated (anInstance InstanceStateRunning)"
proof -
  have "onCreate healthy = (Some (anInstance InstanceStateRunning), None)"
    by (simp add: healthy_def)
  then show ?thesis
    by (simp add: Create_healthy anInstance_def)
qed

section \<open>Read\<close>

text \<open>C6, as the code has it. When \<^verbatim>\<open>Read\<close> returns without an error, the fetch
  succeeded, and the saved state has name, description, host name, memory, CPU count,
  project, identifier and creation timestamp from the response, while the disk list, the
  IP list, the start flag, the user data and the timeouts are those of the prior state.
  (Nothing is said here of the last-modified timestamp.)\<close>

theorem Read_refreshes_scalars_keeps_lists:
  assumes "Read Error dflt client req w = (Returned, x)"
    and "\<not> HasError (Diagnostics x)"
  shows "\<exists>inst s. fst (InstanceView client (ValueString (ID (GetModel req))) w) = (Some inst, None)
     \<and> State x = Some s
     \<and> Name s = StringValue (iName inst)
     \<and> Description s = StringValue (iDescription inst)
     \<and> HostName s = StringValue (iHostname inst)
     \<and> Memory s = Int64Value (iMemory inst)
     \<and> NCPUs s = Int64Value (ucast (iNcpus inst))
     \<and> ProjectID s = StringValue (iProjectId inst)
     \<and> ID s = StringValue (iId inst)
     \<and> TimeCreated s = StringValue (iTimeCreated inst)
     \<and> AttachToDisks s = AttachToDisks (GetModel req)
     \<and> ExternalIPs s = ExternalIPs (GetModel req)
     \<and> StartOnCreate s = StartOnCreate (GetModel req)
     \<and> UserData s = UserData (GetModel req)
     \<and> Timeouts s = Timeouts (GetModel req)"
  using assms
  by (auto simp: Read_def Let_def start_def HasError_append HasError_AddError HasError_Nil
      split: if_splits prod.splits option.splits)

text \<open>C6, as the code has it, at the prior state of the examples read on the healthy
  remote system.\<close>

theorem Read_refreshes_scalars_keeps_lists_witness:
  "\<exists>x. Read errorText (600 * Second) (scripted healthy) aRequest 0 = (Returned, x)
     \<and> \<not> HasError (Diagnostics x)
     \<and> (\<exists>inst s. fst (InstanceView (scripted healthy) ''id-1'' 0) = (Some inst, None)
          \<and> State x = Some s
          \<and> Name s = StringValue (iName inst)
          \<and> Memory s = Int64Value 1073741824
          \<and> NCPUs s = Int64Value 2
          \<and> AttachToDisks s = ListValue [''\"disk-1\"'']
          \<and> ExternalIPs s = ListNull)"
proof -
  have i: "ValueString (ID (GetModel aRequest)) = ''id-1''"
    by (simp add: aRequest_def aModel_def)
  obtain x where run: "Read errorText (600 * Second) (scripted healthy) aRequest 0 = (Returned, x)"
    and ok: "\<not> HasError (Diagnostics x)"
    using Read_healthy by (simp add: HasError_def)
  from Read_refreshes_scalars_keeps_lists [OF run ok] obtain inst s where
    "fst (InstanceView (scripted healthy) ''id-1'' 0) = (Some inst, None)"
    "State x = Some s" "Name s = StringValue (iName inst)"
    "Memory s = Int64Value (iMemory inst)" "NCPUs s = Int64Value (ucast (iNcpus inst))"
    "AttachToDisks s = AttachToDisks (GetModel aRequest)"
    "ExternalIPs s = ExternalIPs (GetModel aRequest)"
    unfolding i by blast
  moreover from this(1) have "iMemory inst = 1073741824" "iNcpus inst = 2"
    by (auto simp: scripted_simps healthy_def anInstance_def)
  ultimately show ?thesis using run ok
    by (auto simp: aRequest_def aModel_def)
qed

text \<open>C6 as stated fails: the list attributes are not refreshed. Two reads on the same
  remote system, which answers both with the same view, start from prior states with
  different disk and IP lists; each saves the lists of its own prior state.\<close>

theorem Read_keeps_prior_lists:
  "map_option AttachToDisks (State (snd (Read errorText (600 * Second) (scripted healthy)
      (aRequest\<lparr>GetModel := aModel\<lparr>AttachToDisks := ListValue [''\"disk-1\"''],
         ExternalIPs := ListNull\<rparr>\<rparr>) 0))) = Some (ListValue [''\"disk-1\"''])
   \<and> map_option AttachToDisks (State (snd (Read errorText (600 * Second) (scripted healthy)
      (aRequest\<lparr>GetModel := aModel\<lparr>AttachToDisks := ListValue [''\"disk-9\"''],
         ExternalIPs := ListValue [''\"pool-9\"'']\<rparr>\<rparr>) 0))) = Some (ListValue [''\"disk-9\"''])
   \<and> map_option ExternalIPs (State (snd (Read errorText (600 * Second) (scripted healthy)
      (aRequest\<lparr>GetModel := aModel\<lparr>AttachToDisks := ListValue [''\"disk-1\"''],
         ExternalIPs := ListNull\<rparr>\<rparr>) 0))) = Some ListNull
   \<and> map_option ExternalIPs (State (snd (Read errorText (600 * Second) (scripted healthy)
      (aRequest\<lparr>GetModel := aModel\<lparr>AttachToDisks := ListValue [''\"disk-9\"''],
         ExternalIPs := ListValue [''\"pool-9\"'']\<rparr>\<rparr>) 0))) = Some (ListValue [''\"pool-9\"''])"
  by (simp add: read_defs)

section \<open>The stop-wait poll\<close>

text \<open>C7. The claim is that the poller ends as soon as a fetch fails. When the fetch
  fails with not-found and hands back nil, \<^verbatim>\<open>waitForStoppedInstance\<close> sends the error
  and, there being no return after the send, goes on to read \<^verbatim>\<open>resp.RunState\<close>
  through the nil response: it panics instead of returning.\<close>

theorem waitForStoppedInstance_goes_on_after_error:
  "waitForStoppedInstance (scripted gone) ''id-1'' 0 [] =
     Some (Panicked, 1, [Call (CallInstanceView ''id-1''), ChanSend (Some NotFound)])
   \<and> onView gone 0 = (None, Some NotFound)"
  by (simp add: waitForStoppedInstance.simps delete_defs gone_def)

section \<open>Delete\<close>

text \<open>C1. The claim is that \<^verbatim>\<open>Delete\<close> fails with a timeout no later than the delete
  budget when the instance is never reported stopped. With a budget of two seconds, on a
  remote system that reports the instance running at every fetch, \<^verbatim>\<open>Delete\<close> never
  returns, under either reading of \<^verbatim>\<open>is404\<close>.\<close>

theorem Delete_never_returns_when_never_stopped:
  "Timeouts_Delete (Timeouts (GetModel aRequest)) (600 * Second) = (2 * Second, [])
   \<and> Delete is404Guarded errorText (600 * Second) (scripted neverStopped) aRequest 0 = None
   \<and> Delete is404Unguarded errorText (600 * Second) (scripted neverStopped) aRequest 0 = None"
proof -
  have script: "onList neverStopped = onList healthy" "onDetach neverStopped = onDetach healthy"
    "onStop neverStopped = onStop healthy"
    by (simp_all add: neverStopped_def)
  show ?thesis
    by (simp add: Delete_def stopAndDelete_def waitAndDelete_def Let_def start_def
        HasError_def Timeouts_Delete_def aRequest_def aModel_def failUnless404_def scripted_simps
        receive_diverges [OF pollOnce_neverStopped] script healthy_def)
qed

text \<open>C2. The claim is that \<^verbatim>\<open>Delete\<close> goes on to the delete call once the poll has
  seen the instance stopped. On the healthy remote system the poll sees it stopped at the
  third fetch and sends nil; \<^verbatim>\<open>Delete\<close> applies \<^verbatim>\<open>!is404(e)\<close> to that nil and
  panics, under either reading of \<^verbatim>\<open>is404\<close>, and the trace holds no delete call.\<close>

theorem Delete_panics_when_instance_stops:
  "Delete is404Unguarded errorText (600 * Second) (scripted healthy) aRequest 0 =
     Some (Panicked,
       \<lparr>World = 3,
        Trace = [Call (CallInstanceDiskList ''id-1'' 1000000000),
                 Call (CallInstanceDiskDetach ''id-1'' ''disk-1''),
                 Call (CallInstanceStop ''id-1''),
                 Call (CallInstanceView ''id-1''), Sleep Second,
                 Call (CallInstanceView ''id-1''), Sleep Second,
                 Call (CallInstanceView ''id-1''), ChanSend None],
        Diagnostics = [], State = None\<rparr>)
   \<and> Delete is404Guarded errorText (600 * Second) (scripted healthy) aRequest 0 =
     Some (Panicked,
       \<lparr>World = 3,
        Trace = [Call (CallInstanceDiskList ''id-1'' 1000000000),
                 Call (CallInstanceDiskDetach ''id-1'' ''disk-1''),
                 Call (CallInstanceStop ''id-1''),
                 Call (CallInstanceView ''id-1''), Sleep Second,
                 Call (CallInstanceView ''id-1''), Sleep Second,
                 Call (CallInstanceView ''id-1''), ChanSend None],
        Diagnostics = [], State = None\<rparr>)"
  by (simp add: delete_defs receive.simps healthy_def)

text \<open>C3. The claim is that \<^verbatim>\<open>Delete\<close> succeeds when every call fails with
  not-found. When the failed list call hands back nil, \<^verbatim>\<open>Delete\<close> passes the
  not-found test and then reads \<^verbatim>\<open>disks.Items\<close> through the nil page: it panics
  right after the list call, under either reading of \<^verbatim>\<open>is404\<close>.\<close>

theorem Delete_panics_when_list_not_found:
  "Delete is404Guarded errorText (600 * Second) (scripted gone) aRequest 0 =
     Some (Panicked,
       \<lparr>World = 0, Trace = [Call (CallInstanceDiskList ''id-1'' 1000000000)],
        Diagnostics = [], State = None\<rparr>)
   \<and> Delete is404Unguarded errorText (600 * Second) (scripted gone) aRequest 0 =
     Some (Panicked,
       \<lparr>World = 0, Trace = [Call (CallInstanceDiskList ''id-1'' 1000000000)],
        Diagnostics = [], State = None\<rparr>)"
  by (simp add: delete_defs receive.simps gone_def)

text \<open>C4, as the code has it. When the stop request fails with not-found in the state in
  which \<^verbatim>\<open>Delete\<close> issues it, \<^verbatim>\<open>Delete\<close> does not return there: it goes on as the
  poll and the delete call do from the state it had, with the stop request added to the
  trace and nothing added to the diagnostics. So in every run that ends, the call right
  after the stop request is a view call, and what the diagnostics have beyond those before
  the stop request is nothing, or the one error of the poll, or the one error of the delete
  call.\<close>

theorem Delete_stop_not_found_enters_poll:
  assumes reach: "listAndDetach is404 Error dflt client req w = Inr x"
    and stop: "InstanceStop client (ValueString (ID (GetModel req))) (World x) = ((r, Some e), w1)"
    and nf: "is404 (Some e) = Some True"
  shows "Delete is404 Error dflt client req w =
       waitAndDelete is404 Error client (ValueString (ID (GetModel req)))
         (x\<lparr>World := w1,
            Trace := Trace x @ [Call (CallInstanceStop (ValueString (ID (GetModel req))))]\<rparr>)
   \<and> (\<forall>en x'. Delete is404 Error dflt client req w = Some (en, x') \<longrightarrow>
        (\<exists>post. Trace x' =
           Trace x @ [Call (CallInstanceStop (ValueString (ID (GetModel req)))),
                      Call (CallInstanceView (ValueString (ID (GetModel req))))] @ post)
        \<and> (Diagnostics x' = Diagnostics x
           \<or> (\<exists>e'. en = Returned \<and> last (Trace x') = ChanSend (Some e')
                  \<and> is404 (Some e') = Some False
                  \<and> Diagnostics x' = Diagnostics x @
                       [ErrorDiag ''Unable to stop instance:'' (''API error: '' @ Error e')])
           \<or> (\<exists>e'. en = Returned
                  \<and> last (Trace x') = Call (CallInstanceDelete (ValueString (ID (GetModel req))))
                  \<and> is404 (Some e') = Some False
                  \<and> Diagnostics x' = Diagnostics x @
                       [ErrorDiag ''Unable to delete instance:'' (''API error: '' @ Error e')])))"
proof -
  let ?i = "ValueString (ID (GetModel req))"
  let ?x1 = "x\<lparr>World := w1, Trace := Trace x @ [Call (CallInstanceStop ?i)]\<rparr>"
  have eq: "Delete is404 Error dflt client req w = waitAndDelete is404 Error client ?i ?x1"
    using reach stop nf
    by (simp add: Delete_listAndDetach stopAndDelete_def failUnless404_def)
  have "(\<exists>post. Trace x' = Trace x @ [Call (CallInstanceStop ?i), Call (CallInstanceView ?i)] @ post)
        \<and> (Diagnostics x' = Diagnostics x
           \<or> (\<exists>e'. en = Returned \<and> last (Trace x') = ChanSend (Some e')
                  \<and> is404 (Some e') = Some False
                  \<and> Diagnostics x' = Diagnostics x @
                       [ErrorDiag ''Unable to stop instance:'' (''API error: '' @ Error e')])
           \<or> (\<exists>e'. en = Returned \<and> last (Trace x') = Call (CallInstanceDelete ?i)
                  \<and> is404 (Some e') = Some False
                  \<and> Diagnostics x' = Diagnostics x @
                       [ErrorDiag ''Unable to delete instance:'' (''API error: '' @ Error e')]))"
    if run: "Delete is404 Error dflt client req w = Some (en, x')" for en x'
  proof -
    from run eq have w: "waitAndDelete is404 Error client ?i ?x1 = Some (en, x')" by simp
    from waitAndDelete_trace [OF w] obtain post where
      "Trace x' = (Trace x @ [Call (CallInstanceStop ?i)]) @ Call (CallInstanceView ?i) # post"
      by auto
    then have "Trace x' = Trace x @ [Call (CallInstanceStop ?i), Call (CallInstanceView ?i)] @ post"
      by simp
    moreover from waitAndDelete_diagnostics [OF w]
    have "Diagnostics x' = Diagnostics x
           \<or> (\<exists>e'. en = Returned \<and> last (Trace x') = ChanSend (Some e')
                  \<and> is404 (Some e') = Some False
                  \<and> Diagnostics x' = Diagnostics x @
                       [ErrorDiag ''Unable to stop instance:'' (''API error: '' @ Error e')])
           \<or> (\<exists>e'. en = Returned \<and> last (Trace x') = Call (CallInstanceDelete ?i)
                  \<and> is404 (Some e') = Some False
                  \<and> Diagnostics x' = Diagnostics x @
                       [ErrorDiag ''Unable to delete instance:'' (''API error: '' @ Error e')])"
      by simp
    ultimately show ?thesis by blast
  qed
  with eq show ?thesis by blast
qed

text \<open>C4, as the code has it, on the remote system where the list call succeeds with no
  disk and every call from the stop request on fails with not-found and a nil result: the
  stop request is the second call, the view call of the poll follows it, the goroutine
  panics after sending the error of that fetch, and the diagnostics are still empty.\<close>

theorem Delete_stop_not_found_enters_poll_witness:
  "listAndDetach is404Guarded errorText (600 * Second) (scripted stopGone) aRequest 0 =
     Inr \<lparr>World = 0, Trace = [Call (CallInstanceDiskList ''id-1'' 1000000000)],
          Diagnostics = [], State = None\<rparr>
   \<and> InstanceStop (scripted stopGone) ''id-1'' 0 = ((None, Some NotFound), 0)
   \<and> is404Guarded (Some NotFound) = Some True
   \<and> Delete is404Guarded errorText (600 * Second) (scripted stopGone) aRequest 0 =
       Some (Panicked,
         \<lparr>World = 1,
          Trace = [Call (CallInstanceDiskList ''id-1'' 1000000000),
                   Call (CallInstanceStop ''id-1''),
                   Call (CallInstanceView ''id-1''), ChanSend (Some NotFound)],
          Diagnostics = [], State = None\<rparr>)
   \<and> (\<exists>en x' post. Delete is404Guarded errorText (600 * Second) (scripted stopGone) aRequest 0
          = Some (en, x')
        \<and> Trace x' = [Call (CallInstanceDiskList ''id-1'' 1000000000)]
            @ [Call (CallInstanceStop ''id-1''), Call (CallInstanceView ''id-1'')] @ post
        \<and> Diagnostics x' = [])"
proof -
  let ?x = "\<lparr>World = 0::nat,
      Trace = [Call (CallInstanceDiskList ''id-1'' 1000000000) :: apiError event],
      Diagnostics = [], State = None\<rparr>"
  have i: "ValueString (ID (GetModel aRequest)) = ''id-1''"
    by (simp add: aRequest_def aModel_def)
  have reach: "listAndDetach is404Guarded errorText (600 * Second) (scripted stopGone) aRequest 0
      = Inr ?x"
    by (rule listAndDetach_stopGone)
  have stop: "InstanceStop (scripted stopGone) (ValueString (ID (GetModel aRequest))) (World ?x)
      = ((None, Some NotFound), 0)"
    by (simp add: scripted_simps stopGone_def gone_def)
  have nf: "is404Guarded (Some NotFound) = Some True"
    by (simp add: is404Guarded_def)
  have run: "Delete is404Guarded errorText (600 * Second) (scripted stopGone) aRequest 0 =
       Some (Panicked,
         \<lparr>World = 1,
          Trace = [Call (CallInstanceDiskList ''id-1'' 1000000000),
                   Call (CallInstanceStop ''id-1''),
                   Call (CallInstanceView ''id-1''), ChanSend (Some NotFound)],
          Diagnostics = [], State = None\<rparr>)"
    by (simp add: delete_defs receive.simps gone_def stopGone_def)
  from Delete_stop_not_found_enters_poll [OF reach stop nf] run
  have "\<exists>post. [Call (CallInstanceDiskList ''id-1'' 1000000000),
                   Call (CallInstanceStop ''id-1''),
                   Call (CallInstanceView ''id-1''), ChanSend (Some NotFound)] =
      [Call (CallInstanceDiskList ''id-1'' 1000000000) :: apiError event]
        @ [Call (CallInstanceStop ''id-1''), Call (CallInstanceView ''id-1'')] @ post"
    unfolding i by simp
  with reach stop nf run show ?thesis unfolding i by simp
qed

text \<open>C4 as stated fails: after a stop request that fails with not-found, \<^verbatim>\<open>Delete\<close>
  does enter the poll, and the run does not end in success. Here the fetch of the poll
  fails with a server error and a nil result: the goroutine sends the error, panics on the
  nil response, and the process ends, under either reading of \<^verbatim>\<open>is404\<close>.\<close>

theorem Delete_stop_not_found_then_poll_panics:
  "Delete is404Guarded errorText (600 * Second) (scripted stopGonePollFails) aRequest 0 =
     Some (Panicked,
       \<lparr>World = 1,
        Trace = [Call (CallInstanceDiskList ''id-1'' 1000000000),
                 Call (CallInstanceStop ''id-1''),
                 Call (CallInstanceView ''id-1''), ChanSend (Some ServerError)],
        Diagnostics = [], State = None\<rparr>)
   \<and> Delete is404Unguarded errorText (600 * Second) (scripted stopGonePollFails) aRequest 0 =
     Some (Panicked,
       \<lparr>World = 1,
        Trace = [Call (CallInstanceDiskList ''id-1'' 1000000000),
                 Call (CallInstanceStop ''id-1''),
                 Call (CallInstanceView ''id-1''), ChanSend (Some ServerError)],
        Diagnostics = [], State = None\<rparr>)
   \<and> onStop stopGonePollFails = (None, Some NotFound)
   \<and> onView stopGonePollFails 0 = (None, Some ServerError)"
  by (simp add: delete_defs receive.simps gone_def stopGonePollFails_def)

end
